theory Spec2Isabelle
  imports Complex_Main "HOL-Library.AList"
begin

section \<open>Values and errors\<close>

text \<open>
  The fund model computes with Python floats and, once a value has passed through a
  pandas column, with numpy float64 scalars. Both are idealised as real numbers, except
  where a statement turns on rounding: there the calculation is repeated in the binary64
  arithmetic of a later section. What is kept throughout is the difference
  between the two on degenerate input. A Python float division by zero raises
  \<open>ZeroDivisionError\<close>; a numpy division by zero and a numpy power of a negative base
  raise nothing and yield \<open>inf\<close> or \<open>nan\<close>, which no real number stands for: such a
  cell is \<open>None\<close>.
\<close>

datatype py_error = ZeroDivisionError | KeyError | IndexError | ValueError

type_synonym np_float = "real option"

definition py_div :: "real \<Rightarrow> real \<Rightarrow> py_error + real" where
  "py_div a b = (if b = 0 then Inl ZeroDivisionError else Inr (a / b))"

definition np_true_divide :: "real \<Rightarrow> real \<Rightarrow> np_float" where
  "np_true_divide a b = (if b = 0 then None else Some (a / b))"

text \<open>
  \<open>x ** y\<close> on a numpy scalar, used by the model with the exponent \<open>1 / 10\<close> only:
  a negative base with a fractional exponent is \<open>nan\<close>.
\<close>

definition np_power :: "np_float \<Rightarrow> real \<Rightarrow> np_float" where
  "np_power x y =
     (case x of None \<Rightarrow> None
      | Some b \<Rightarrow> if b < 0 then None else Some (b powr y))"

section \<open>The model object\<close>

text \<open>
  One entry of \<open>investment_params\<close>. Every category has \<open>count\<close> and \<open>allocation\<close>;
  \<open>target_moic\<close> is a key of the fixed-return categories only. The keys the
  calculations never read (\<open>avg_check\<close>, \<open>pre_money_val\<close>, \<open>ownership\<close>) are left out.
\<close>

record params =
  count :: real
  allocation :: real
  target_moic :: "real option"

record outcome_spec =
  probability :: real
  multiple :: real

record fund_model =
  fund_size :: real
  management_fee_rate :: real
  carried_interest_rate :: real
  fund_life :: int
  investment_period :: int
  total_management_fees :: real
  operating_expenses :: real
  net_investable :: real
  recycling_amount :: real
  total_deployable :: real
  investment_params :: "string \<rightharpoonup> params"
  power_law_seed :: "(string \<times> outcome_spec) list"
  power_law_series_a :: "(string \<times> outcome_spec) list"

definition default_investment_params :: "string \<rightharpoonup> params" where
  "default_investment_params =
     [''seed'' \<mapsto> \<lparr>count = 10, allocation = 15, target_moic = None\<rparr>,
      ''shared_safe'' \<mapsto> \<lparr>count = 6, allocation = 12, target_moic = None\<rparr>,
      ''series_a'' \<mapsto> \<lparr>count = 6, allocation = 12, target_moic = None\<rparr>,
      ''incubation'' \<mapsto> \<lparr>count = 0, allocation = 4, target_moic = Some 3\<rparr>,
      ''recycled'' \<mapsto> \<lparr>count = 3, allocation = 2, target_moic = Some 5\<rparr>]"

definition default_power_law_seed :: "(string \<times> outcome_spec) list" where
  "default_power_law_seed =
     [(''home_run'', \<lparr>probability = 10 / 100, multiple = 50\<rparr>),
      (''winners'', \<lparr>probability = 20 / 100, multiple = 10\<rparr>),
      (''moderate'', \<lparr>probability = 30 / 100, multiple = 3\<rparr>),
      (''return_capital'', \<lparr>probability = 20 / 100, multiple = 1\<rparr>),
      (''write_off'', \<lparr>probability = 20 / 100, multiple = 0\<rparr>)]"

definition default_power_law_series_a :: "(string \<times> outcome_spec) list" where
  "default_power_law_series_a =
     [(''home_run'', \<lparr>probability = 10 / 100, multiple = 30\<rparr>),
      (''winners'', \<lparr>probability = 20 / 100, multiple = 8\<rparr>),
      (''moderate'', \<lparr>probability = 30 / 100, multiple = 3\<rparr>),
      (''return_capital'', \<lparr>probability = 20 / 100, multiple = 1\<rparr>),
      (''write_off'', \<lparr>probability = 20 / 100, multiple = 0\<rparr>)]"

text \<open>\<open>FactorFundModelEnhanced.__init__(fund_size)\<close>: nothing is validated.\<close>

definition init :: "real \<Rightarrow> fund_model" where
  "init fs =
     (let mfr = 2 / 100;
          fl = 10;
          tmf = fs * mfr * real_of_int fl;
          opx = 2;
          ni = fs - tmf - opx;
          rcy = 7
      in \<lparr>fund_size = fs,
          management_fee_rate = mfr,
          carried_interest_rate = 20 / 100,
          fund_life = fl,
          investment_period = 4,
          total_management_fees = tmf,
          operating_expenses = opx,
          net_investable = ni,
          recycling_amount = rcy,
          total_deployable = ni + rcy,
          investment_params = default_investment_params,
          power_law_seed = default_power_law_seed,
          power_law_series_a = default_power_law_series_a\<rparr>)"

section \<open>Category return calculators\<close>

record outcome_result =
  companies :: real
  capital :: real
  outcome_return :: real
  outcome_multiple :: real

record category_summary =
  total_invested :: real
  total_return :: real
  moic :: real

record equity_summary = category_summary +
  breakdown :: "(string \<times> outcome_result) list"

text \<open>
  The loop of \<open>calculate_equity_returns\<close> over \<open>distribution.items()\<close>, with its two
  accumulators: the dictionary \<open>returns_by_outcome\<close> (an association list in insertion
  order; assigning to a key that is present overwrites it in place) and \<open>total_return\<close>.
\<close>

fun equity_outcomes ::
  "real \<Rightarrow> real \<Rightarrow> (string \<times> outcome_spec) list \<Rightarrow>
   (string \<times> outcome_result) list \<Rightarrow> real \<Rightarrow> (string \<times> outcome_result) list \<times> real" where
  "equity_outcomes cnt invested [] returns_by_outcome tot = (returns_by_outcome, tot)"
| "equity_outcomes cnt invested ((outcome, specs) # rest) returns_by_outcome tot =
     (let comp = cnt * probability specs;
          cap = invested * probability specs;
          ret = cap * multiple specs
      in equity_outcomes cnt invested rest
           (AList.update outcome
              \<lparr>companies = comp, capital = cap, outcome_return = ret,
               outcome_multiple = multiple specs\<rparr> returns_by_outcome)
           (tot + ret))"


definition calculate_equity_returns :: "fund_model \<Rightarrow> string \<Rightarrow> py_error + equity_summary" where
  "calculate_equity_returns m investment_type =
     (case investment_params m investment_type of
        None \<Rightarrow> Inl KeyError
      | Some ps \<Rightarrow>
          let invested = allocation ps;
              cnt = count ps;
              distribution = (if investment_type = ''seed'' then power_law_seed m
                              else power_law_series_a m);
              (returns_by_outcome, tot) = equity_outcomes cnt invested distribution [] 0
          in case py_div tot invested of
               Inl e \<Rightarrow> Inl e
             | Inr q \<Rightarrow>
                 Inr \<lparr>total_invested = invested, total_return = tot, moic = q,
                      breakdown = returns_by_outcome\<rparr>)"

record rs_schedule =
  year_1_2 :: real
  year_3_4 :: real
  year_5 :: real
  year_7_10 :: real

record revenue_share_summary = category_summary +
  revenue_share_return :: real
  equity_return :: real
  cash_flow_schedule :: rs_schedule

definition calculate_revenue_share_returns :: "fund_model \<Rightarrow> py_error + revenue_share_summary" where
  "calculate_revenue_share_returns m =
     (case investment_params m ''shared_safe'' of
        None \<Rightarrow> Inl KeyError
      | Some ps \<Rightarrow>
          let invested = allocation ps;
              rsr = invested * (25 / 10);
              equity_portion = invested * (40 / 100);
              er = equity_portion * (15 / 10);
              tot = rsr + er;
              cash_flows = \<lparr>year_1_2 = rsr * (20 / 100),
                            year_3_4 = rsr * (40 / 100),
                            year_5 = rsr * (40 / 100),
                            year_7_10 = er\<rparr>
          in case py_div tot invested of
               Inl e \<Rightarrow> Inl e
             | Inr q \<Rightarrow>
                 Inr \<lparr>total_invested = invested, total_return = tot, moic = q,
                      revenue_share_return = rsr, equity_return = er,
                      cash_flow_schedule = cash_flows\<rparr>)"

section \<open>Portfolio aggregation\<close>

record portfolio_row =
  Category :: string
  Invested :: real
  Gross_Return :: real
  MOIC :: np_float
  Pct_of_Portfolio :: real

text \<open>The category table of \<open>calculate_portfolio_returns\<close>: display name, key, calculator.\<close>

definition categories :: "(string \<times> string \<times> string option) list" where
  "categories =
     [(''Seed'', ''seed'', None),
      (''Shared SAFE'', ''shared_safe'', Some ''revenue_share''),
      (''Series A'', ''series_a'', None),
      (''Incubation'', ''incubation'', Some ''fixed''),
      (''Recycled'', ''recycled'', Some ''fixed'')]"

text \<open>
  One pass of the loop body. The percentage divides two Python floats, so a zero
  \<open>total_deployable\<close> raises; in the fixed branch the lookup of \<open>target_moic\<close> comes
  before that division.
\<close>

definition category_row :: "fund_model \<Rightarrow> string \<times> string \<times> string option \<Rightarrow> py_error + portfolio_row" where
  "category_row m c =
     (case c of (cat_name, cat_key, calc_type) \<Rightarrow>
        if calc_type = Some ''revenue_share'' then
          (case calculate_revenue_share_returns m of
             Inl e \<Rightarrow> Inl e
           | Inr returns \<Rightarrow>
               (case py_div (total_invested returns) (total_deployable m) of
                  Inl e \<Rightarrow> Inl e
                | Inr q \<Rightarrow>
                    Inr \<lparr>Category = cat_name, Invested = total_invested returns,
                         Gross_Return = total_return returns, MOIC = Some (moic returns),
                         Pct_of_Portfolio = q * 100\<rparr>))
        else if calc_type = Some ''fixed'' then
          (case investment_params m cat_key of
             None \<Rightarrow> Inl KeyError
           | Some ps \<Rightarrow>
               (case target_moic ps of
                  None \<Rightarrow> Inl KeyError
                | Some t \<Rightarrow>
                    (case py_div (allocation ps) (total_deployable m) of
                       Inl e \<Rightarrow> Inl e
                     | Inr q \<Rightarrow>
                         Inr \<lparr>Category = cat_name, Invested = allocation ps,
                              Gross_Return = allocation ps * t, MOIC = Some t,
                              Pct_of_Portfolio = q * 100\<rparr>)))
        else
          (case calculate_equity_returns m cat_key of
             Inl e \<Rightarrow> Inl e
           | Inr returns \<Rightarrow>
               (case py_div (total_invested returns) (total_deployable m) of
                  Inl e \<Rightarrow> Inl e
                | Inr q \<Rightarrow>
                    Inr \<lparr>Category = cat_name, Invested = total_invested returns,
                         Gross_Return = total_return returns, MOIC = Some (moic returns),
                         Pct_of_Portfolio = q * 100\<rparr>)))"

fun category_rows :: "fund_model \<Rightarrow> (string \<times> string \<times> string option) list \<Rightarrow> py_error + portfolio_row list" where
  "category_rows m [] = Inr []"
| "category_rows m (c # cs) =
     (case category_row m c of
        Inl e \<Rightarrow> Inl e
      | Inr r \<Rightarrow> (case category_rows m cs of Inl e \<Rightarrow> Inl e | Inr rs \<Rightarrow> Inr (r # rs)))"

text \<open>
  The totals are sums of pandas columns, hence numpy scalars: the MOIC of the total row
  is a numpy division, which does not raise.
\<close>

definition calculate_portfolio_returns :: "fund_model \<Rightarrow> py_error + portfolio_row list" where
  "calculate_portfolio_returns m =
     (case category_rows m categories of
        Inl e \<Rightarrow> Inl e
      | Inr results \<Rightarrow>
          let total_invested_sum = sum_list (map Invested results);
              total_gross = sum_list (map Gross_Return results) + 5;
              total_row = \<lparr>Category = ''Total Portfolio'', Invested = total_invested_sum,
                           Gross_Return = total_gross,
                           MOIC = np_true_divide total_gross total_invested_sum,
                           Pct_of_Portfolio = 100\<rparr>
          in Inr (results @ [total_row]))"

section \<open>Cash-flow projection\<close>

record cash_flow_frame =
  Year :: "int list"
  Capital_Calls :: "real list"
  Revenue_Share :: "real list"
  Equity_Exits :: "real list"
  Total_Distribution :: "real list"
  Net_Cash_Flow :: "real list"
  Cumulative_Distribution :: "real list"
  DPI :: "np_float list"
  Gross_Profit :: "real list"
  Carry_Due :: "real list"
  Net_to_LPs :: "real list"

definition equity_exits :: "real list" where
  "equity_exits = [0, 0, 3, 8, 12, 20, 32, 40, 32, 755 / 10]"

text \<open>
  \<open>frame.loc[i, col] = v\<close> with a scalar label: an existing row is overwritten, a
  missing label enlarges the frame by one row. The model assigns the labels 0 to 4 in
  order, so a missing label is always the next row.
\<close>

definition loc_set :: "nat \<Rightarrow> real \<Rightarrow> real list \<Rightarrow> real list" where
  "loc_set i v col = (if i < length col then col[i := v] else col @ [v])"

text \<open>\<open>frame.loc[lo:hi, col] = v\<close> with a label slice: both ends included, existing rows only.\<close>

definition loc_slice_set :: "nat \<Rightarrow> nat \<Rightarrow> real \<Rightarrow> real list \<Rightarrow> real list" where
  "loc_slice_set lo hi v col =
     map (\<lambda>(i, x). if lo \<le> i \<and> i \<le> hi then v else x) (enumerate 0 col)"

fun cumsum_from :: "real \<Rightarrow> real list \<Rightarrow> real list" where
  "cumsum_from acc [] = []"
| "cumsum_from acc (x # xs) = (acc + x) # cumsum_from (acc + x) xs"

definition cumsum :: "real list \<Rightarrow> real list" where
  "cumsum xs = cumsum_from 0 xs"

text \<open>\<open>series.shift(1).fillna(0)\<close>\<close>

definition shift_fillna :: "real list \<Rightarrow> real list" where
  "shift_fillna xs = (if xs = [] then [] else 0 # butlast xs)"

text \<open>
  The assignments to the \<open>Revenue Share\<close> column of a frame of \<open>n\<close> rows: five scalar
  assignments, which enlarge a shorter frame to five rows, and the flat tail on the rows
  5 to 8 that exist.
\<close>

definition revenue_share_column :: "rs_schedule \<Rightarrow> nat \<Rightarrow> real list" where
  "revenue_share_column rs n =
     loc_slice_set 5 8 (18 / 10)
       (loc_set 4 (year_5 rs)
         (loc_set 3 (year_3_4 rs * (6 / 10))
           (loc_set 2 (year_3_4 rs * (4 / 10))
             (loc_set 1 (year_1_2 rs * (6 / 10))
               (loc_set 0 (year_1_2 rs * (4 / 10)) (replicate n 0))))))"

text \<open>
  The columns computed after the equity exits are in place (``Calculate totals and
  metrics'', ``Calculate net to LPs''). The rate of the carry is the literal \<open>0.20\<close> of
  the source.
\<close>

definition derived_columns ::
  "fund_model \<Rightarrow> int list \<Rightarrow> real list \<Rightarrow> real list \<Rightarrow> real list \<Rightarrow> cash_flow_frame" where
  "derived_columns m years capital_calls revenue_share exits =
     (let total_distribution = map2 (+) revenue_share exits;
          net_cash_flow = map2 (+) capital_calls total_distribution;
          cumulative = cumsum total_distribution;
          dpi = map (\<lambda>x. np_true_divide x (fund_size m)) cumulative;
          profit = map (\<lambda>x. x - fund_size m) cumulative;
          carry_due = map (\<lambda>x. max 0 (x * (20 / 100))) profit;
          net_to_lps = map2 (-) total_distribution
                         (map2 (-) carry_due (shift_fillna carry_due))
      in \<lparr>Year = years, Capital_Calls = capital_calls,
          Revenue_Share = revenue_share, Equity_Exits = exits,
          Total_Distribution = total_distribution,
          Net_Cash_Flow = net_cash_flow,
          Cumulative_Distribution = cumulative, DPI = dpi,
          Gross_Profit = profit, Carry_Due = carry_due,
          Net_to_LPs = net_to_lps\<rparr>)"

text \<open>
  \<open>calculate_cash_flows\<close>. The frame starts with \<open>fund_life\<close> rows (none when
  \<open>fund_life\<close> is not positive) and has as many rows as its \<open>Revenue Share\<close> column
  once that column is assigned. Assigning the ten equity exits as a column raises
  \<open>ValueError\<close> unless the frame has ten rows, so the later columns are computed for a
  frame of ten rows only.
\<close>

definition calculate_cash_flows :: "fund_model \<Rightarrow> py_error + cash_flow_frame" where
  "calculate_cash_flows m =
     (case calculate_revenue_share_returns m of
        Inl e \<Rightarrow> Inl e
      | Inr safe_returns \<Rightarrow>
          let rs = cash_flow_schedule safe_returns;
              n = nat (fund_life m);
              years = map int [1..<n + 1];
              capital_calls = loc_slice_set 0 3 (- fund_size m / 4) (replicate n 0);
              revenue_share = revenue_share_column rs n
          in if length equity_exits \<noteq> length revenue_share then Inl ValueError
             else Inr (derived_columns m years capital_calls revenue_share equity_exits))"

section \<open>LP returns\<close>

record lp_returns =
  gross_returns :: real
  gross_moic :: np_float
  gross_profit :: real
  carry :: real
  net_profit_to_lps :: real
  total_lp_distribution :: real
  net_moic :: np_float
  net_irr :: np_float
  management_fees :: real
  lp_operating_expenses :: real

text \<open>
  \<open>numpy_financial.irr\<close> is a library outside the repository: the model takes it as a
  parameter. A solver either raises or returns a float, which may be \<open>nan\<close>.
\<close>

type_synonym irr_solver = "real list \<Rightarrow> py_error + np_float"

text \<open>
  \<open>portfolio_returns.loc[portfolio_returns["Category"] == "Total Portfolio",
  "Gross Return"].values[0]\<close>: the first matching row; none raises \<open>IndexError\<close>.
\<close>

definition total_portfolio_gross :: "portfolio_row list \<Rightarrow> py_error + real" where
  "total_portfolio_gross portfolio_returns =
     (case filter (\<lambda>r. Category r = ''Total Portfolio'') portfolio_returns of
        [] \<Rightarrow> Inl IndexError
      | r # _ \<Rightarrow> Inr (Gross_Return r))"

text \<open>\<open>series.iloc[-1]\<close>\<close>

definition iloc_last :: "real list \<Rightarrow> py_error + real" where
  "iloc_last xs = (if xs = [] then Inl IndexError else Inr (last xs))"

definition calculate_lp_returns :: "irr_solver \<Rightarrow> fund_model \<Rightarrow> portfolio_row list \<Rightarrow> py_error + lp_returns" where
  "calculate_lp_returns npf_irr m portfolio_returns =
     (case total_portfolio_gross portfolio_returns of
        Inl e \<Rightarrow> Inl e
      | Inr gross \<Rightarrow>
          let profit = gross - fund_size m;
              cry = (if profit > 0 then profit * carried_interest_rate m else 0);
              net_profit = profit - cry;
              total_lp = fund_size m + net_profit
          in case calculate_cash_flows m of
               Inl e \<Rightarrow> Inl e
             | Inr cash_flows \<Rightarrow>
                 (case iloc_last (Net_to_LPs cash_flows) of
                    Inl e \<Rightarrow> Inl e
                  | Inr final \<Rightarrow>
                      let lp_cash_flows = Capital_Calls cash_flows @ [final];
                          irr = (case npf_irr (butlast lp_cash_flows
                                                @ [sum_list (Net_to_LPs cash_flows)]) of
                                   Inl e \<Rightarrow> Some (185 / 1000)
                                 | Inr r \<Rightarrow> r)
                      in Inr \<lparr>gross_returns = gross,
                              gross_moic = np_true_divide gross (fund_size m),
                              gross_profit = profit,
                              carry = cry,
                              net_profit_to_lps = net_profit,
                              total_lp_distribution = total_lp,
                              net_moic = np_true_divide total_lp (fund_size m),
                              net_irr = irr,
                              management_fees = total_management_fees m,
                              lp_operating_expenses = operating_expenses m\<rparr>))"

section \<open>Sensitivity analysis\<close>

record sensitivity_row =
  Scenario :: string
  Gross_Returns :: real
  Gross_MOIC :: np_float
  Net_MOIC :: np_float
  Net_IRR_pct :: np_float

definition scenarios :: "(string \<times> real) list" where
  "scenarios = [(''Downside (-30%)'', 7 / 10), (''Base Case'', 1), (''Upside (+30%)'', 13 / 10)]"

text \<open>The loop body of \<open>sensitivity_analysis\<close>; the exponent is the literal \<open>1 / 10\<close>.\<close>

definition scenario_row :: "fund_model \<Rightarrow> lp_returns \<Rightarrow> string \<times> real \<Rightarrow> sensitivity_row" where
  "scenario_row m base_case sc =
     (case sc of (scenario_name, multiplier) \<Rightarrow>
        let gross = gross_returns base_case * multiplier;
            profit = gross - fund_size m;
            cry = (if profit > 0 then profit * carried_interest_rate m else 0);
            net = fund_size m + profit - cry;
            mo = np_true_divide net (fund_size m);
            irr_estimate = map_option (\<lambda>x. (x - 1) * 100) (np_power mo (1 / 10))
        in \<lparr>Scenario = scenario_name, Gross_Returns = gross,
            Gross_MOIC = np_true_divide gross (fund_size m),
            Net_MOIC = mo, Net_IRR_pct = irr_estimate\<rparr>)"

definition sensitivity_analysis :: "irr_solver \<Rightarrow> fund_model \<Rightarrow> portfolio_row list \<Rightarrow> py_error + sensitivity_row list" where
  "sensitivity_analysis npf_irr m portfolio_returns =
     (case calculate_lp_returns npf_irr m portfolio_returns of
        Inl e \<Rightarrow> Inl e
      | Inr base_case \<Rightarrow> Inr (map (scenario_row m base_case) scenarios))"

section \<open>The request handler\<close>

record params_update =
  new_count :: "real option"
  new_allocation :: "real option"
  new_target_moic :: "real option"

record request =
  req_fund_size :: "real option"
  req_management_fee_rate :: "real option"
  req_carried_interest_rate :: "real option"
  req_fund_life :: "int option"
  req_investment_period :: "int option"
  req_investment_params :: "(string \<times> params_update) list"

record calculation =
  res_portfolio_returns :: "portfolio_row list"
  res_lp_returns :: lp_returns
  res_cash_flows :: cash_flow_frame
  res_sensitivity :: "sensitivity_row list"

text \<open>\<open>dict.update\<close> on one category: the named keys are overwritten, the others kept.\<close>

definition update_params :: "params \<Rightarrow> params_update \<Rightarrow> params" where
  "update_params ps u =
     \<lparr>count = (case new_count u of None \<Rightarrow> count ps | Some c \<Rightarrow> c),
      allocation = (case new_allocation u of None \<Rightarrow> allocation ps | Some a \<Rightarrow> a),
      target_moic = (case new_target_moic u of None \<Rightarrow> target_moic ps | Some t \<Rightarrow> Some t)\<rparr>"

fun update_investment_params :: "(string \<rightharpoonup> params) \<Rightarrow> (string \<times> params_update) list \<Rightarrow> (string \<rightharpoonup> params)" where
  "update_investment_params ip [] = ip"
| "update_investment_params ip ((category, u) # rest) =
     update_investment_params
       (case ip category of
          None \<Rightarrow> ip
        | Some ps \<Rightarrow> ip(category \<mapsto> update_params ps u)) rest"

text \<open>
  The configuration that \<open>run_model\<close> builds from a request: the constructor, the
  overrides that are present, and the derived totals recomputed. No value is checked.
\<close>

definition configure :: "request \<Rightarrow> fund_model" where
  "configure data =
     (let m0 = init (case req_fund_size data of None \<Rightarrow> 50 | Some fs \<Rightarrow> fs);
          m1 = (case req_management_fee_rate data of
                  None \<Rightarrow> m0 | Some r \<Rightarrow> m0\<lparr>management_fee_rate := r\<rparr>);
          m2 = (case req_carried_interest_rate data of
                  None \<Rightarrow> m1 | Some r \<Rightarrow> m1\<lparr>carried_interest_rate := r\<rparr>);
          m3 = (case req_fund_life data of None \<Rightarrow> m2 | Some l \<Rightarrow> m2\<lparr>fund_life := l\<rparr>);
          m4 = (case req_investment_period data of
                  None \<Rightarrow> m3 | Some p \<Rightarrow> m3\<lparr>investment_period := p\<rparr>);
          m5 = m4\<lparr>investment_params :=
                    update_investment_params (investment_params m4) (req_investment_params data)\<rparr>;
          tmf = fund_size m5 * management_fee_rate m5 * real_of_int (fund_life m5);
          ni = fund_size m5 - tmf - operating_expenses m5
      in m5\<lparr>total_management_fees := tmf, net_investable := ni,
             total_deployable := ni + recycling_amount m5\<rparr>)"

text \<open>
  The calculation stage of \<open>run_model\<close>: the four engine calls in the handler's order.
  Any exception ends the handler with an error response (\<open>Inl\<close>); rendering the figure
  and serialising the response are not modelled.
\<close>

definition run_model :: "irr_solver \<Rightarrow> request \<Rightarrow> py_error + calculation" where
  "run_model npf_irr data =
     (let m = configure data
      in case calculate_portfolio_returns m of
           Inl e \<Rightarrow> Inl e
         | Inr portfolio_returns \<Rightarrow>
             (case calculate_lp_returns npf_irr m portfolio_returns of
                Inl e \<Rightarrow> Inl e
              | Inr lp \<Rightarrow>
                  (case calculate_cash_flows m of
                     Inl e \<Rightarrow> Inl e
                   | Inr cash_flows \<Rightarrow>
                       (case sensitivity_analysis npf_irr m portfolio_returns of
                          Inl e \<Rightarrow> Inl e
                        | Inr sensitivity \<Rightarrow>
                            Inr \<lparr>res_portfolio_returns = portfolio_returns,
                                 res_lp_returns = lp,
                                 res_cash_flows = cash_flows,
                                 res_sensitivity = sensitivity\<rparr>))))"

section \<open>Binary64 arithmetic\<close>











text \<open>
  A stand-in for the library solver where a closed evaluation needs one: it finds no rate
  and answers \<open>nan\<close> on every series without raising, which is how
  \<open>numpy_financial.irr\<close> reports a series that has no solution.
\<close>

definition irr_nan :: irr_solver where
  "irr_nan values = Inr None"

section \<open>Facts about the calculators\<close>

lemma length_loc_set: "length (loc_set i v col) = (if i < length col then length col else Suc (length col))"
  by (simp add: loc_set_def)

lemma length_loc_slice_set: "length (loc_slice_set lo hi v col) = length col"
  by (simp add: loc_slice_set_def)

lemma length_revenue_share_column: "length (revenue_share_column rs n) = max n 5"
  by (simp add: revenue_share_column_def length_loc_set length_loc_slice_set)

lemma revenue_share_returns_Inr:
  assumes "calculate_revenue_share_returns m = Inr r"
  obtains ps where "investment_params m ''shared_safe'' = Some ps" "allocation ps \<noteq> 0"
    "r = \<lparr>total_invested = allocation ps,
          total_return = allocation ps * (25 / 10) + allocation ps * (40 / 100) * (15 / 10),
          moic = (allocation ps * (25 / 10) + allocation ps * (40 / 100) * (15 / 10)) / allocation ps,
          revenue_share_return = allocation ps * (25 / 10),
          equity_return = allocation ps * (40 / 100) * (15 / 10),
          cash_flow_schedule =
            \<lparr>year_1_2 = allocation ps * (25 / 10) * (20 / 100),
             year_3_4 = allocation ps * (25 / 10) * (40 / 100),
             year_5 = allocation ps * (25 / 10) * (40 / 100),
             year_7_10 = allocation ps * (40 / 100) * (15 / 10)\<rparr>\<rparr>"
proof (cases "investment_params m ''shared_safe''")
  case None
  with assms show ?thesis by (simp add: calculate_revenue_share_returns_def)
next
  case (Some ps)
  show ?thesis
  proof (cases "allocation ps = 0")
    case True
    with assms Some show ?thesis
      by (simp add: calculate_revenue_share_returns_def py_div_def Let_def)
  next
    case False
    with assms Some have "r = \<lparr>total_invested = allocation ps,
          total_return = allocation ps * (25 / 10) + allocation ps * (40 / 100) * (15 / 10),
          moic = (allocation ps * (25 / 10) + allocation ps * (40 / 100) * (15 / 10)) / allocation ps,
          revenue_share_return = allocation ps * (25 / 10),
          equity_return = allocation ps * (40 / 100) * (15 / 10),
          cash_flow_schedule =
            \<lparr>year_1_2 = allocation ps * (25 / 10) * (20 / 100),
             year_3_4 = allocation ps * (25 / 10) * (40 / 100),
             year_5 = allocation ps * (25 / 10) * (40 / 100),
             year_7_10 = allocation ps * (40 / 100) * (15 / 10)\<rparr>\<rparr>"
      by (simp add: calculate_revenue_share_returns_def py_div_def Let_def)
    with Some False show ?thesis by (rule that)
  qed
qed

lemma replicate10: "replicate 10 x = [x,x,x,x,x,x,x,x,x,x]"
  by (simp add: eval_nat_numeral)

lemma cash_flows_Inr:
  assumes "calculate_cash_flows m = Inr cf"
  obtains ps where "investment_params m ''shared_safe'' = Some ps" "allocation ps \<noteq> 0"
    "fund_life m = 10"
    "cf = derived_columns m [1, 2, 3, 4, 5, 6, 7, 8, 9, 10]
            [- fund_size m / 4, - fund_size m / 4, - fund_size m / 4, - fund_size m / 4,
             0, 0, 0, 0, 0, 0]
            [allocation ps * (25 / 10) * (20 / 100) * (4 / 10),
             allocation ps * (25 / 10) * (20 / 100) * (6 / 10),
             allocation ps * (25 / 10) * (40 / 100) * (4 / 10),
             allocation ps * (25 / 10) * (40 / 100) * (6 / 10),
             allocation ps * (25 / 10) * (40 / 100),
             18 / 10, 18 / 10, 18 / 10, 18 / 10, 0]
            equity_exits"
proof (cases "calculate_revenue_share_returns m")
  case (Inl e)
  with assms show ?thesis by (simp add: calculate_cash_flows_def)
next
  case (Inr r)
  then obtain ps where ps: "investment_params m ''shared_safe'' = Some ps" "allocation ps \<noteq> 0"
    and r: "r = \<lparr>total_invested = allocation ps,
          total_return = allocation ps * (25 / 10) + allocation ps * (40 / 100) * (15 / 10),
          moic = (allocation ps * (25 / 10) + allocation ps * (40 / 100) * (15 / 10)) / allocation ps,
          revenue_share_return = allocation ps * (25 / 10),
          equity_return = allocation ps * (40 / 100) * (15 / 10),
          cash_flow_schedule =
            \<lparr>year_1_2 = allocation ps * (25 / 10) * (20 / 100),
             year_3_4 = allocation ps * (25 / 10) * (40 / 100),
             year_5 = allocation ps * (25 / 10) * (40 / 100),
             year_7_10 = allocation ps * (40 / 100) * (15 / 10)\<rparr>\<rparr>"
    by (rule revenue_share_returns_Inr)
  have len: "length equity_exits = max (nat (fund_life m)) 5"
  proof (rule ccontr)
    assume "length equity_exits \<noteq> max (nat (fund_life m)) 5"
    with assms Inr show False
      by (simp add: calculate_cash_flows_def Let_def length_revenue_share_column)
  qed
  then have n: "nat (fund_life m) = 10" by (simp add: equity_exits_def)
  then have fl: "fund_life m = 10" by simp
  have cs: "cash_flow_schedule r = \<lparr>year_1_2 = allocation ps * (25 / 10) * (20 / 100),
             year_3_4 = allocation ps * (25 / 10) * (40 / 100),
             year_5 = allocation ps * (25 / 10) * (40 / 100),
             year_7_10 = allocation ps * (40 / 100) * (15 / 10)\<rparr>"
    by (simp add: r)
  from assms Inr have "cf = derived_columns m [1, 2, 3, 4, 5, 6, 7, 8, 9, 10]
            [- fund_size m / 4, - fund_size m / 4, - fund_size m / 4, - fund_size m / 4,
             0, 0, 0, 0, 0, 0]
            [allocation ps * (25 / 10) * (20 / 100) * (4 / 10),
             allocation ps * (25 / 10) * (20 / 100) * (6 / 10),
             allocation ps * (25 / 10) * (40 / 100) * (4 / 10),
             allocation ps * (25 / 10) * (40 / 100) * (6 / 10),
             allocation ps * (25 / 10) * (40 / 100),
             18 / 10, 18 / 10, 18 / 10, 18 / 10, 0]
            equity_exits"
    by (simp add: calculate_cash_flows_def Let_def n length_revenue_share_column cs
        revenue_share_column_def replicate10 loc_set_def loc_slice_set_def upt_rec
        split: if_splits)
  with ps fl show ?thesis by (rule that)
qed

lemma cash_flows_returns:
  assumes "investment_params m ''shared_safe'' = Some ps" "allocation ps \<noteq> 0" "fund_life m = 10"
  shows "\<exists>cf. calculate_cash_flows m = Inr cf"
  using assms
  by (simp add: calculate_cash_flows_def calculate_revenue_share_returns_def py_div_def Let_def
      length_revenue_share_column equity_exits_def)

lemma cash_flows_fund_life_error:
  assumes "fund_life m \<noteq> 10"
  shows "isl (calculate_cash_flows m)"
proof (cases "calculate_cash_flows m")
  case (Inl e) then show ?thesis by simp
next
  case (Inr cf)
  then have "fund_life m = 10" by (rule cash_flows_Inr)
  with assms show ?thesis by simp
qed

lemma cumsum_from_sorted:
  assumes "list_all (\<lambda>x. 0 \<le> x) xs"
  shows "sorted (cumsum_from acc xs) \<and> list_all (\<lambda>y. acc \<le> y) (cumsum_from acc xs)"
  using assms
proof (induction xs arbitrary: acc)
  case Nil
  then show ?case by simp
next
  case (Cons x xs)
  then have x: "0 \<le> x" and xs: "list_all (\<lambda>x. 0 \<le> x) xs" by simp_all
  from Cons.IH[OF xs, of "acc + x"]
  have s: "sorted (cumsum_from (acc + x) xs)"
    and b: "list_all (\<lambda>y. acc + x \<le> y) (cumsum_from (acc + x) xs)" by simp_all
  from b x have b': "list_all (\<lambda>y. acc \<le> y) (cumsum_from (acc + x) xs)"
    by (auto simp: list_all_iff)
  from s b b' x show ?case by (auto simp: list_all_iff)
qed

lemma sorted_map_mono:
  assumes "sorted xs" "\<And>x y. x \<le> y \<Longrightarrow> f x \<le> f y"
  shows "sorted (map f xs)"
  using assms by (induction xs) auto

lemma derived_columns_sel:
  "Year (derived_columns m ys cc rs ex) = ys"
  "Capital_Calls (derived_columns m ys cc rs ex) = cc"
  "Revenue_Share (derived_columns m ys cc rs ex) = rs"
  "Equity_Exits (derived_columns m ys cc rs ex) = ex"
  "Total_Distribution (derived_columns m ys cc rs ex) = map2 (+) rs ex"
  "Cumulative_Distribution (derived_columns m ys cc rs ex) = cumsum (map2 (+) rs ex)"
  "DPI (derived_columns m ys cc rs ex) =
     map (\<lambda>x. np_true_divide x (fund_size m)) (cumsum (map2 (+) rs ex))"
  "Gross_Profit (derived_columns m ys cc rs ex) =
     map (\<lambda>x. x - fund_size m) (cumsum (map2 (+) rs ex))"
  "Carry_Due (derived_columns m ys cc rs ex) =
     map (\<lambda>x. max 0 (x * (20 / 100))) (map (\<lambda>x. x - fund_size m) (cumsum (map2 (+) rs ex)))"
  "Net_to_LPs (derived_columns m ys cc rs ex) =
     map2 (-) (map2 (+) rs ex)
       (map2 (-) (Carry_Due (derived_columns m ys cc rs ex))
          (shift_fillna (Carry_Due (derived_columns m ys cc rs ex))))"
  by (simp_all add: derived_columns_def Let_def)

lemma length_cumsum_from: "length (cumsum_from acc xs) = length xs"
  by (induction xs arbitrary: acc) simp_all

lemma init_sel:
  "fund_size (init fs) = fs"
  "management_fee_rate (init fs) = 2 / 100"
  "carried_interest_rate (init fs) = 20 / 100"
  "fund_life (init fs) = 10"
  "total_management_fees (init fs) = fs * (2 / 100) * 10"
  "operating_expenses (init fs) = 2"
  "total_deployable (init fs) = fs - fs * (2 / 100) * 10 - 2 + 7"
  "investment_params (init fs) = default_investment_params"
  "power_law_seed (init fs) = default_power_law_seed"
  "power_law_series_a (init fs) = default_power_law_series_a"
  by (simp_all add: init_def Let_def)

lemma default_investment_params_sel:
  "default_investment_params ''seed'' = Some \<lparr>count = 10, allocation = 15, target_moic = None\<rparr>"
  "default_investment_params ''shared_safe'' = Some \<lparr>count = 6, allocation = 12, target_moic = None\<rparr>"
  "default_investment_params ''series_a'' = Some \<lparr>count = 6, allocation = 12, target_moic = None\<rparr>"
  "default_investment_params ''incubation'' = Some \<lparr>count = 0, allocation = 4, target_moic = Some 3\<rparr>"
  "default_investment_params ''recycled'' = Some \<lparr>count = 3, allocation = 2, target_moic = Some 5\<rparr>"
  by (simp_all add: default_investment_params_def)

lemma Inr_projr: "\<exists>y. x = Inr y \<Longrightarrow> x = Inr (projr x)"
  by auto

section \<open>Cash-flow schedule: monotone columns and DPI\<close>

text \<open>
  C5. In the schedule returned by \<open>calculate_cash_flows\<close> there is one row per fund-life
  year, the cumulative distribution is non-decreasing across years, the carry due is
  non-decreasing across years, and in every year the DPI is the cumulative distribution
  divided by the fund size (a numpy division). The allocation of \<open>shared_safe\<close> is
  non-negative, as the data model of a configuration has it.
\<close>

theorem cash_flows_monotone:
  assumes "calculate_cash_flows m = Inr cf"
    and "investment_params m ''shared_safe'' = Some ps"
    and "0 \<le> allocation ps"
  shows "length (Year cf) = nat (fund_life m)
       \<and> length (Cumulative_Distribution cf) = length (Year cf)
       \<and> length (Carry_Due cf) = length (Year cf)
       \<and> length (DPI cf) = length (Year cf)
       \<and> sorted (Cumulative_Distribution cf)
       \<and> sorted (Carry_Due cf)
       \<and> DPI cf = map (\<lambda>c. np_true_divide c (fund_size m)) (Cumulative_Distribution cf)"
proof -
  from assms(1) obtain ps' where ps': "investment_params m ''shared_safe'' = Some ps'"
    and fl: "fund_life m = 10"
    and cf: "cf = derived_columns m [1, 2, 3, 4, 5, 6, 7, 8, 9, 10]
            [- fund_size m / 4, - fund_size m / 4, - fund_size m / 4, - fund_size m / 4,
             0, 0, 0, 0, 0, 0]
            [allocation ps' * (25 / 10) * (20 / 100) * (4 / 10),
             allocation ps' * (25 / 10) * (20 / 100) * (6 / 10),
             allocation ps' * (25 / 10) * (40 / 100) * (4 / 10),
             allocation ps' * (25 / 10) * (40 / 100) * (6 / 10),
             allocation ps' * (25 / 10) * (40 / 100),
             18 / 10, 18 / 10, 18 / 10, 18 / 10, 0]
            equity_exits"
    by (rule cash_flows_Inr)
  from ps' assms(2) have eq: "ps' = ps" by simp
  define td where "td = Total_Distribution cf"
  have td: "list_all (\<lambda>x. 0 \<le> x) td"
    using assms(3) by (simp add: td_def cf eq derived_columns_sel equity_exits_def)
  have cum: "Cumulative_Distribution cf = cumsum td"
    by (simp add: td_def cf derived_columns_sel)
  have s1: "sorted (Cumulative_Distribution cf)"
    using cumsum_from_sorted[OF td, of 0] by (simp add: cum cumsum_def)
  have gp: "Carry_Due cf = map (\<lambda>x. max 0 ((x - fund_size m) * (20 / 100))) (Cumulative_Distribution cf)"
    by (simp add: cf derived_columns_sel)
  have s2: "sorted (Carry_Due cf)"
    unfolding gp
  proof (rule sorted_map_mono[OF s1])
    fix x y :: real
    assume "x \<le> y"
    then have "(x - fund_size m) * (20 / 100) \<le> (y - fund_size m) * (20 / 100)" by simp
    then show "max 0 ((x - fund_size m) * (20 / 100)) \<le> max 0 ((y - fund_size m) * (20 / 100))"
      by (rule max.mono[OF order_refl])
  qed
  have lens: "length (Year cf) = nat (fund_life m)" "length td = 10"
    by (simp_all add: td_def cf fl derived_columns_sel equity_exits_def)
  have dpi: "DPI cf = map (\<lambda>c. np_true_divide c (fund_size m)) (Cumulative_Distribution cf)"
    by (simp add: cf derived_columns_sel)
  have l2: "length (Cumulative_Distribution cf) = 10"
    by (simp add: cum cumsum_def length_cumsum_from lens)
  from s1 s2 lens dpi l2 fl show ?thesis by (simp add: gp)
qed

theorem cash_flows_monotone_witness:
  "calculate_cash_flows (init 50) = Inr (projr (calculate_cash_flows (init 50)))
   \<and> investment_params (init 50) ''shared_safe'' = Some \<lparr>count = 6, allocation = 12, target_moic = None\<rparr>
   \<and> (0::real) \<le> allocation \<lparr>count = 6, allocation = 12, target_moic = None\<rparr>
   \<and> length (Year (projr (calculate_cash_flows (init 50)))) = 10
   \<and> sorted (Cumulative_Distribution (projr (calculate_cash_flows (init 50))))
   \<and> sorted (Carry_Due (projr (calculate_cash_flows (init 50))))
   \<and> DPI (projr (calculate_cash_flows (init 50))) =
       map (\<lambda>c. np_true_divide c 50) (Cumulative_Distribution (projr (calculate_cash_flows (init 50))))"
proof -
  have ps: "investment_params (init 50) ''shared_safe'' = Some \<lparr>count = 6, allocation = 12, target_moic = None\<rparr>"
    by (simp add: init_sel default_investment_params_sel)
  have "\<exists>cf. calculate_cash_flows (init 50) = Inr cf"
    by (rule cash_flows_returns[OF ps]) (simp_all add: init_sel)
  then have r: "calculate_cash_flows (init 50) = Inr (projr (calculate_cash_flows (init 50)))"
    by (rule Inr_projr)
  have a: "(0::real) \<le> allocation \<lparr>count = 6, allocation = 12, target_moic = None\<rparr>" by simp
  from cash_flows_monotone[OF r ps a] r ps a show ?thesis
    by (simp add: init_sel)
qed

lemma category_row_Category:
  assumes "category_row m c = Inr r"
  shows "Category r = fst c"
proof -
  obtain cat_name cat_key calc_type where c: "c = (cat_name, cat_key, calc_type)"
    by (cases c) auto
  from assms show ?thesis
    unfolding c category_row_def
    by (auto split: if_splits sum.splits option.splits)
qed

lemma category_rows_Category:
  assumes "category_rows m cs = Inr rs"
  shows "map Category rs = map fst cs"
  using assms
proof (induction cs arbitrary: rs)
  case Nil
  then show ?case by simp
next
  case (Cons c cs)
  from Cons.prems obtain r rs' where r: "category_row m c = Inr r"
    and rs': "category_rows m cs = Inr rs'" and rs: "rs = r # rs'"
    by (auto split: sum.splits)
  from category_row_Category[OF r] Cons.IH[OF rs'] rs show ?case by simp
qed

lemma portfolio_returns_Inr:
  assumes "calculate_portfolio_returns m = Inr tbl"
  obtains results where "category_rows m categories = Inr results"
    "tbl = results @ [\<lparr>Category = ''Total Portfolio'',
                       Invested = sum_list (map Invested results),
                       Gross_Return = sum_list (map Gross_Return results) + 5,
                       MOIC = np_true_divide (sum_list (map Gross_Return results) + 5)
                                (sum_list (map Invested results)),
                       Pct_of_Portfolio = 100\<rparr>]"
  using assms
  by (cases "category_rows m categories") (simp_all add: calculate_portfolio_returns_def Let_def)

lemma default_portfolio:
  "calculate_portfolio_returns (init 50) =
     Inr [\<lparr>Category = ''Seed'', Invested = 15, Gross_Return = 243 / 2,
           MOIC = Some (81 / 10), Pct_of_Portfolio = 100 / 3\<rparr>,
          \<lparr>Category = ''Shared SAFE'', Invested = 12, Gross_Return = 186 / 5,
           MOIC = Some (31 / 10), Pct_of_Portfolio = 80 / 3\<rparr>,
          \<lparr>Category = ''Series A'', Invested = 12, Gross_Return = 342 / 5,
           MOIC = Some (57 / 10), Pct_of_Portfolio = 80 / 3\<rparr>,
          \<lparr>Category = ''Incubation'', Invested = 4, Gross_Return = 12,
           MOIC = Some 3, Pct_of_Portfolio = 80 / 9\<rparr>,
          \<lparr>Category = ''Recycled'', Invested = 2, Gross_Return = 10,
           MOIC = Some 5, Pct_of_Portfolio = 40 / 9\<rparr>,
          \<lparr>Category = ''Total Portfolio'', Invested = 45,
           Gross_Return = 2541 / 10, MOIC = Some (847 / 150),
           Pct_of_Portfolio = 100\<rparr>]"
  by (simp add: calculate_portfolio_returns_def categories_def category_row_def
      calculate_equity_returns_def calculate_revenue_share_returns_def init_sel
      default_investment_params_sel default_power_law_seed_def default_power_law_series_a_def
      py_div_def np_true_divide_def Let_def)

section \<open>Portfolio table: the total row\<close>

text \<open>
  C1. The table returned by \<open>calculate_portfolio_returns\<close> lists the five categories in
  their fixed order and ends with the \<open>Total Portfolio\<close> row. In that row the invested
  amount is the sum of the five category amounts, the gross return is the sum of the five
  category gross returns plus 5, the percentage is 100, and the MOIC is the gross return
  of the row divided by its invested amount (a numpy division).
\<close>

theorem portfolio_total_row:
  assumes "calculate_portfolio_returns m = Inr tbl"
  shows "map Category tbl =
           [''Seed'', ''Shared SAFE'', ''Series A'', ''Incubation'', ''Recycled'', ''Total Portfolio'']
       \<and> Invested (last tbl) = sum_list (map Invested (butlast tbl))
       \<and> Gross_Return (last tbl) = sum_list (map Gross_Return (butlast tbl)) + 5
       \<and> Pct_of_Portfolio (last tbl) = 100
       \<and> MOIC (last tbl) = np_true_divide (Gross_Return (last tbl)) (Invested (last tbl))"
proof -
  from assms obtain results where rs: "category_rows m categories = Inr results"
    and tbl: "tbl = results @ [\<lparr>Category = ''Total Portfolio'',
                       Invested = sum_list (map Invested results),
                       Gross_Return = sum_list (map Gross_Return results) + 5,
                       MOIC = np_true_divide (sum_list (map Gross_Return results) + 5)
                                (sum_list (map Invested results)),
                       Pct_of_Portfolio = 100\<rparr>]"
    by (rule portfolio_returns_Inr)
  have names: "map Category results = [''Seed'', ''Shared SAFE'', ''Series A'', ''Incubation'', ''Recycled'']"
    using category_rows_Category[OF rs] by (simp add: categories_def)
  show ?thesis by (simp add: tbl names)
qed

theorem portfolio_total_row_witness:
  "calculate_portfolio_returns (init 50) = Inr (projr (calculate_portfolio_returns (init 50)))
   \<and> map Category (projr (calculate_portfolio_returns (init 50))) =
        [''Seed'', ''Shared SAFE'', ''Series A'', ''Incubation'', ''Recycled'', ''Total Portfolio'']
   \<and> Invested (last (projr (calculate_portfolio_returns (init 50)))) = 45
   \<and> Gross_Return (last (projr (calculate_portfolio_returns (init 50)))) = 2541 / 10
   \<and> Pct_of_Portfolio (last (projr (calculate_portfolio_returns (init 50)))) = 100
   \<and> MOIC (last (projr (calculate_portfolio_returns (init 50)))) = Some (847 / 150)"
proof -
  have r: "calculate_portfolio_returns (init 50) = Inr (projr (calculate_portfolio_returns (init 50)))"
    by (simp add: default_portfolio)
  from portfolio_total_row[OF r] r show ?thesis
    by (simp add: default_portfolio np_true_divide_def)
qed















section \<open>Equity categories: expected returns\<close>




section \<open>Revenue-share returns: the fixed ratios\<close>

text \<open>
  C8, as stated for every allocation \<open>a \<ge> 0\<close>, fails at \<open>a = 0\<close>: the MOIC of the
  summary divides by the allocation, and the function raises instead of returning. The
  configuration is the one the request handler builds from a request that sets the
  \<open>shared_safe\<close> allocation to 0.
\<close>

theorem revenue_share_returns_zero_allocation:
  "calculate_revenue_share_returns
     (configure \<lparr>req_fund_size = None, req_management_fee_rate = None,
                 req_carried_interest_rate = None, req_fund_life = None,
                 req_investment_period = None,
                 req_investment_params =
                   [(''shared_safe'', \<lparr>new_count = None, new_allocation = Some 0,
                                        new_target_moic = None\<rparr>)]\<rparr>)
   = Inl ZeroDivisionError"
  by (simp add: configure_def update_params_def init_sel default_investment_params_sel
      calculate_revenue_share_returns_def py_div_def Let_def)

text \<open>
  C8, amended. For every \<open>shared_safe\<close> allocation \<open>a > 0\<close>,
  \<open>calculate_revenue_share_returns\<close> returns a summary with revenue-share return
  \<open>a \<times> 2.5\<close>, equity return \<open>(a \<times> 0.40) \<times> 1.5\<close>, total return their sum, and a
  schedule that gives 0.20, 0.40 and 0.40 of the revenue-share return to the buckets of
  years 1 to 2, 3 to 4 and 5, and the whole equity return to the bucket of years 7 to 10.
\<close>

theorem revenue_share_returns_fixed_ratios:
  assumes "investment_params m ''shared_safe'' = Some ps"
    and "0 < allocation ps"
  shows "\<exists>r. calculate_revenue_share_returns m = Inr r
           \<and> revenue_share_return r = allocation ps * (25 / 10)
           \<and> equity_return r = (allocation ps * (40 / 100)) * (15 / 10)
           \<and> total_return r = revenue_share_return r + equity_return r
           \<and> year_1_2 (cash_flow_schedule r) = revenue_share_return r * (20 / 100)
           \<and> year_3_4 (cash_flow_schedule r) = revenue_share_return r * (40 / 100)
           \<and> year_5 (cash_flow_schedule r) = revenue_share_return r * (40 / 100)
           \<and> year_7_10 (cash_flow_schedule r) = equity_return r"
  using assms
  by (simp add: calculate_revenue_share_returns_def py_div_def Let_def)

theorem revenue_share_returns_fixed_ratios_witness:
  "investment_params (init 50) ''shared_safe'' = Some \<lparr>count = 6, allocation = 12, target_moic = None\<rparr>
   \<and> 0 < allocation \<lparr>count = 6, allocation = 12, target_moic = None\<rparr>
   \<and> (\<exists>r. calculate_revenue_share_returns (init 50) = Inr r
          \<and> revenue_share_return r = 30
          \<and> equity_return r = 36 / 5
          \<and> total_return r = 186 / 5
          \<and> year_1_2 (cash_flow_schedule r) = 6
          \<and> year_3_4 (cash_flow_schedule r) = 12
          \<and> year_5 (cash_flow_schedule r) = 12
          \<and> year_7_10 (cash_flow_schedule r) = 36 / 5)"
proof -
  have ps: "investment_params (init 50) ''shared_safe'' = Some \<lparr>count = 6, allocation = 12, target_moic = None\<rparr>"
    by (simp add: init_sel default_investment_params_sel)
  have a: "0 < allocation \<lparr>count = 6, allocation = 12, target_moic = None\<rparr>" by simp
  from revenue_share_returns_fixed_ratios[OF ps a] ps a show ?thesis by auto
qed

lemma lp_returns_Inr:
  assumes "calculate_lp_returns npf_irr m tbl = Inr lp"
  obtains gross cf where "total_portfolio_gross tbl = Inr gross"
    "calculate_cash_flows m = Inr cf"
    "Net_to_LPs cf \<noteq> []"
    "lp = \<lparr>gross_returns = gross,
           gross_moic = np_true_divide gross (fund_size m),
           gross_profit = gross - fund_size m,
           carry = (if gross - fund_size m > 0
                    then (gross - fund_size m) * carried_interest_rate m else 0),
           net_profit_to_lps = gross - fund_size m -
              (if gross - fund_size m > 0
               then (gross - fund_size m) * carried_interest_rate m else 0),
           total_lp_distribution = fund_size m + (gross - fund_size m -
              (if gross - fund_size m > 0
               then (gross - fund_size m) * carried_interest_rate m else 0)),
           net_moic = np_true_divide (fund_size m + (gross - fund_size m -
              (if gross - fund_size m > 0
               then (gross - fund_size m) * carried_interest_rate m else 0))) (fund_size m),
           net_irr = (case npf_irr (butlast (Capital_Calls cf @ [last (Net_to_LPs cf)])
                                     @ [sum_list (Net_to_LPs cf)]) of
                        Inl e \<Rightarrow> Some (185 / 1000) | Inr r \<Rightarrow> r),
           management_fees = total_management_fees m,
           lp_operating_expenses = operating_expenses m\<rparr>"
proof (cases "total_portfolio_gross tbl")
  case (Inl e)
  with assms show ?thesis by (simp add: calculate_lp_returns_def)
next
  case g: (Inr gross)
  show ?thesis
  proof (cases "calculate_cash_flows m")
    case (Inl e)
    with assms g show ?thesis by (simp add: calculate_lp_returns_def Let_def)
  next
    case c: (Inr cf)
    show ?thesis
    proof (cases "Net_to_LPs cf = []")
      case True
      with assms g c show ?thesis
        by (simp add: calculate_lp_returns_def Let_def iloc_last_def)
    next
      case False
      show ?thesis
        apply (rule that[OF g c False])
        using assms g c False
        apply (simp add: calculate_lp_returns_def Let_def iloc_last_def)
        done
    qed
  qed
qed

lemma sensitivity_Inr:
  assumes "sensitivity_analysis npf_irr m tbl = Inr st"
  obtains lp where "calculate_lp_returns npf_irr m tbl = Inr lp"
    "st = [scenario_row m lp (''Downside (-30%)'', 7 / 10),
           scenario_row m lp (''Base Case'', 1),
           scenario_row m lp (''Upside (+30%)'', 13 / 10)]"
  using assms
  by (cases "calculate_lp_returns npf_irr m tbl")
     (simp_all add: sensitivity_analysis_def scenarios_def)

lemma scenario_row_sel:
  "Scenario (scenario_row m lp (name, k)) = name"
  "Gross_Returns (scenario_row m lp (name, k)) = gross_returns lp * k"
  "Gross_MOIC (scenario_row m lp (name, k)) = np_true_divide (gross_returns lp * k) (fund_size m)"
  "Net_MOIC (scenario_row m lp (name, k)) =
     np_true_divide
       (fund_size m + (gross_returns lp * k - fund_size m)
          - (if gross_returns lp * k - fund_size m > 0
             then (gross_returns lp * k - fund_size m) * carried_interest_rate m else 0))
       (fund_size m)"
  "Net_IRR_pct (scenario_row m lp (name, k)) =
     map_option (\<lambda>x. (x - 1) * 100) (np_power (Net_MOIC (scenario_row m lp (name, k))) (1 / 10))"
  by (simp_all add: scenario_row_def Let_def)

lemma lp_returns_gross_moic:
  assumes "calculate_lp_returns npf_irr m tbl = Inr lp"
  shows "gross_moic lp = np_true_divide (gross_returns lp) (fund_size m)"
  using assms by (rule lp_returns_Inr) simp

lemma lp_returns_fund_life:
  assumes "calculate_lp_returns npf_irr m tbl = Inr lp"
  shows "fund_life m = 10"
proof -
  from assms obtain cf where "calculate_cash_flows m = Inr cf" by (rule lp_returns_Inr)
  then show ?thesis by (rule cash_flows_Inr)
qed

lemma cash_flows_net_nonempty:
  assumes "calculate_cash_flows m = Inr cf"
  shows "length (Net_to_LPs cf) = 10" "length (Capital_Calls cf) = 10"
proof -
  from assms obtain ps where "investment_params m ''shared_safe'' = Some ps"
    and "allocation ps \<noteq> 0" and "fund_life m = 10"
    and cf: "cf = derived_columns m [1, 2, 3, 4, 5, 6, 7, 8, 9, 10]
            [- fund_size m / 4, - fund_size m / 4, - fund_size m / 4, - fund_size m / 4,
             0, 0, 0, 0, 0, 0]
            [allocation ps * (25 / 10) * (20 / 100) * (4 / 10),
             allocation ps * (25 / 10) * (20 / 100) * (6 / 10),
             allocation ps * (25 / 10) * (40 / 100) * (4 / 10),
             allocation ps * (25 / 10) * (40 / 100) * (6 / 10),
             allocation ps * (25 / 10) * (40 / 100),
             18 / 10, 18 / 10, 18 / 10, 18 / 10, 0]
            equity_exits"
    by (rule cash_flows_Inr)
  show "length (Net_to_LPs cf) = 10" "length (Capital_Calls cf) = 10"
    by (simp_all add: cf derived_columns_sel equity_exits_def cumsum_def length_cumsum_from
        shift_fillna_def)
qed

lemma lp_returns_returns:
  assumes "total_portfolio_gross tbl = Inr g" and "calculate_cash_flows m = Inr cf"
  shows "\<exists>lp. calculate_lp_returns npf_irr m tbl = Inr lp
          \<and> gross_returns lp = g
          \<and> carry lp = (if g - fund_size m > 0 then (g - fund_size m) * carried_interest_rate m else 0)
          \<and> net_irr lp = (case npf_irr (Capital_Calls cf @ [sum_list (Net_to_LPs cf)]) of
                            Inl e \<Rightarrow> Some (185 / 1000) | Inr r \<Rightarrow> r)"
proof -
  from cash_flows_net_nonempty(1)[OF assms(2)] have ne: "Net_to_LPs cf \<noteq> []" by auto
  show ?thesis
    using assms ne by (simp add: calculate_lp_returns_def Let_def iloc_last_def)
qed

lemma portfolio_total_gross:
  assumes "calculate_portfolio_returns m = Inr tbl"
  shows "total_portfolio_gross tbl = Inr (Gross_Return (last tbl))"
proof -
  from assms obtain results where rs: "category_rows m categories = Inr results"
    and tbl: "tbl = results @ [\<lparr>Category = ''Total Portfolio'',
                       Invested = sum_list (map Invested results),
                       Gross_Return = sum_list (map Gross_Return results) + 5,
                       MOIC = np_true_divide (sum_list (map Gross_Return results) + 5)
                                (sum_list (map Invested results)),
                       Pct_of_Portfolio = 100\<rparr>]"
    by (rule portfolio_returns_Inr)
  have "map Category results = [''Seed'', ''Shared SAFE'', ''Series A'', ''Incubation'', ''Recycled'']"
    using category_rows_Category[OF rs] by (simp add: categories_def)
  then have "\<forall>c \<in> set (map Category results). c \<noteq> ''Total Portfolio''" by simp
  then have "filter (\<lambda>r. Category r = ''Total Portfolio'') results = []"
    by (auto simp: filter_empty_conv)
  then show ?thesis by (simp add: total_portfolio_gross_def tbl)
qed

lemma run_model_returns:
  assumes "calculate_portfolio_returns (configure data) = Inr tbl"
    and "calculate_cash_flows (configure data) = Inr cf"
  shows "\<exists>res. run_model npf_irr data = Inr res"
proof -
  from lp_returns_returns[OF portfolio_total_gross[OF assms(1)] assms(2), of npf_irr]
  obtain lp where lp: "calculate_lp_returns npf_irr (configure data) tbl = Inr lp" by blast
  then show ?thesis
    using assms by (simp add: run_model_def Let_def sensitivity_analysis_def)
qed

lemma run_model_cash_flow_error:
  assumes "isl (calculate_cash_flows (configure data))"
  shows "isl (run_model npf_irr data)"
proof (cases "run_model npf_irr data")
  case (Inl e) then show ?thesis by simp
next
  case (Inr res)
  then have "\<not> isl (calculate_cash_flows (configure data))"
    by (auto simp: run_model_def Let_def split: sum.splits)
  with assms show ?thesis by simp
qed

lemma configure_sel:
  "fund_size (configure data) = (case req_fund_size data of None \<Rightarrow> 50 | Some fs \<Rightarrow> fs)"
  "fund_life (configure data) = (case req_fund_life data of None \<Rightarrow> 10 | Some l \<Rightarrow> l)"
  "carried_interest_rate (configure data) =
     (case req_carried_interest_rate data of None \<Rightarrow> 20 / 100 | Some r \<Rightarrow> r)"
  "investment_params (configure data) =
     update_investment_params default_investment_params (req_investment_params data)"
  "power_law_seed (configure data) = default_power_law_seed"
  "power_law_series_a (configure data) = default_power_law_series_a"
  "operating_expenses (configure data) = 2"
  by (simp_all add: configure_def Let_def init_sel split: option.splits)

lemma sensitivity_returns:
  assumes "total_portfolio_gross tbl = Inr g" and "calculate_cash_flows m = Inr cf"
  shows "\<exists>lp. calculate_lp_returns npf_irr m tbl = Inr lp \<and> gross_returns lp = g
          \<and> sensitivity_analysis npf_irr m tbl =
              Inr [scenario_row m lp (''Downside (-30%)'', 7 / 10),
                   scenario_row m lp (''Base Case'', 1),
                   scenario_row m lp (''Upside (+30%)'', 13 / 10)]"
proof -
  from lp_returns_returns[OF assms, of npf_irr]
  obtain lp where "calculate_lp_returns npf_irr m tbl = Inr lp" "gross_returns lp = g"
    by blast
  then show ?thesis by (simp add: sensitivity_analysis_def scenarios_def)
qed

lemma init_portfolio:
  assumes "fs - fs * (2 / 100) * 10 - 2 + 7 \<noteq> 0"
  shows "\<exists>tbl. calculate_portfolio_returns (init fs) = Inr tbl
           \<and> total_portfolio_gross tbl = Inr (2541 / 10)"
proof -
  have "\<exists>tbl. calculate_portfolio_returns (init fs) = Inr tbl \<and> Gross_Return (last tbl) = 2541 / 10"
    using assms
    by (simp add: calculate_portfolio_returns_def categories_def category_row_def
      calculate_equity_returns_def calculate_revenue_share_returns_def init_sel
      default_investment_params_sel default_power_law_seed_def default_power_law_series_a_def
      py_div_def np_true_divide_def Let_def)
  then obtain tbl where t: "calculate_portfolio_returns (init fs) = Inr tbl"
    and g: "Gross_Return (last tbl) = 2541 / 10" by blast
  from portfolio_total_gross[OF t] g t show ?thesis by simp
qed

lemma default_params_cash_flows:
  assumes "investment_params m = default_investment_params" and "fund_life m = 10"
  shows "calculate_cash_flows m =
     Inr (derived_columns m [1, 2, 3, 4, 5, 6, 7, 8, 9, 10]
            [- fund_size m / 4, - fund_size m / 4, - fund_size m / 4, - fund_size m / 4,
             0, 0, 0, 0, 0, 0]
            [12 / 5, 18 / 5, 24 / 5, 36 / 5, 12, 18 / 10, 18 / 10, 18 / 10, 18 / 10, 0]
            equity_exits)"
proof -
  have ps: "investment_params m ''shared_safe'' = Some \<lparr>count = 6, allocation = 12, target_moic = None\<rparr>"
    by (simp add: assms(1) default_investment_params_sel)
  have "\<exists>cf. calculate_cash_flows m = Inr cf"
    by (rule cash_flows_returns[OF ps _ assms(2)]) simp
  then obtain cf where cf: "calculate_cash_flows m = Inr cf" by blast
  from cf obtain ps' where ps': "investment_params m ''shared_safe'' = Some ps'"
    and "allocation ps' \<noteq> 0" and "fund_life m = 10"
    and eq: "cf = derived_columns m [1, 2, 3, 4, 5, 6, 7, 8, 9, 10]
            [- fund_size m / 4, - fund_size m / 4, - fund_size m / 4, - fund_size m / 4,
             0, 0, 0, 0, 0, 0]
            [allocation ps' * (25 / 10) * (20 / 100) * (4 / 10),
             allocation ps' * (25 / 10) * (20 / 100) * (6 / 10),
             allocation ps' * (25 / 10) * (40 / 100) * (4 / 10),
             allocation ps' * (25 / 10) * (40 / 100) * (6 / 10),
             allocation ps' * (25 / 10) * (40 / 100),
             18 / 10, 18 / 10, 18 / 10, 18 / 10, 0]
            equity_exits"
    by (rule cash_flows_Inr)
  from ps ps' have "allocation ps' = 12" by simp
  with eq cf show ?thesis by simp
qed

lemma derived_columns_eval:
  "Carry_Due (derived_columns m ys cc [12 / 5, 18 / 5, 24 / 5, 36 / 5, 12, 18 / 10, 18 / 10, 18 / 10, 18 / 10, 0] equity_exits) =
     map (\<lambda>x. max 0 ((x - fund_size m) * (20 / 100)))
       [12 / 5, 6, 69 / 5, 29, 53, 374 / 5, 543 / 5, 752 / 5, 921 / 5, 2597 / 10]"
  "Total_Distribution (derived_columns m ys cc [12 / 5, 18 / 5, 24 / 5, 36 / 5, 12, 18 / 10, 18 / 10, 18 / 10, 18 / 10, 0] equity_exits) =
     [12 / 5, 18 / 5, 39 / 5, 76 / 5, 24, 109 / 5, 169 / 5, 209 / 5, 169 / 5, 151 / 2]"
  by (simp_all add: derived_columns_sel equity_exits_def cumsum_def)

lemma configure_plain:
  "configure \<lparr>req_fund_size = Some fs, req_management_fee_rate = None,
              req_carried_interest_rate = None, req_fund_life = None,
              req_investment_period = None, req_investment_params = []\<rparr> = init fs"
  by (simp add: configure_def Let_def init_def)

section \<open>LP returns read one cell of the table\<close>

text \<open>
  C10. For a fixed configuration (and solver), two portfolio tables whose
  \<open>Total Portfolio\<close> rows carry the same gross return give the same result of
  \<open>calculate_lp_returns\<close>, errors included: no other row or column is read. The row is
  the one the function looks up, the first whose category is \<open>Total Portfolio\<close>.
\<close>

theorem lp_returns_depends_on_gross:
  assumes "total_portfolio_gross t1 = total_portfolio_gross t2"
  shows "calculate_lp_returns npf_irr m t1 = calculate_lp_returns npf_irr m t2"
  using assms by (simp add: calculate_lp_returns_def)

theorem lp_returns_depends_on_gross_witness:
  "total_portfolio_gross (projr (calculate_portfolio_returns (init 50))) =
     total_portfolio_gross
       [\<lparr>Category = ''Total Portfolio'', Invested = 0, Gross_Return = 2541 / 10,
         MOIC = None, Pct_of_Portfolio = 0\<rparr>]
   \<and> calculate_lp_returns irr_nan (init 50) (projr (calculate_portfolio_returns (init 50))) =
       calculate_lp_returns irr_nan (init 50)
         [\<lparr>Category = ''Total Portfolio'', Invested = 0, Gross_Return = 2541 / 10,
           MOIC = None, Pct_of_Portfolio = 0\<rparr>]"
proof -
  have h: "total_portfolio_gross (projr (calculate_portfolio_returns (init 50))) =
     total_portfolio_gross
       [\<lparr>Category = ''Total Portfolio'', Invested = 0, Gross_Return = 2541 / 10,
         MOIC = None, Pct_of_Portfolio = 0\<rparr>]"
    by (simp add: default_portfolio total_portfolio_gross_def)
  from lp_returns_depends_on_gross[OF h, of irr_nan "init 50"] h show ?thesis by simp
qed

section \<open>Sensitivity scenarios\<close>

text \<open>
  C6. The table returned by \<open>sensitivity_analysis\<close> has the rows downside, base case and
  upside. The gross return of the downside row is 0.7 times that of the base-case row,
  the gross return of the upside row is 1.3 times it, and the gross MOIC of the base-case
  row is the \<open>gross_moic\<close> that \<open>calculate_lp_returns\<close> returns on the same table.
\<close>

theorem sensitivity_scaling:
  assumes "sensitivity_analysis npf_irr m tbl = Inr st"
  shows "\<exists>lp. calculate_lp_returns npf_irr m tbl = Inr lp
          \<and> map Scenario st = [''Downside (-30%)'', ''Base Case'', ''Upside (+30%)'']
          \<and> Gross_Returns (st ! 1) = gross_returns lp
          \<and> Gross_Returns (st ! 0) = (7 / 10) * Gross_Returns (st ! 1)
          \<and> Gross_Returns (st ! 2) = (13 / 10) * Gross_Returns (st ! 1)
          \<and> Gross_MOIC (st ! 1) = gross_moic lp"
proof -
  from assms obtain lp where lp: "calculate_lp_returns npf_irr m tbl = Inr lp"
    and st: "st = [scenario_row m lp (''Downside (-30%)'', 7 / 10),
           scenario_row m lp (''Base Case'', 1),
           scenario_row m lp (''Upside (+30%)'', 13 / 10)]"
    by (rule sensitivity_Inr)
  show ?thesis
    by (rule exI[of _ lp]) (simp add: lp st scenario_row_sel lp_returns_gross_moic[OF lp])
qed

theorem sensitivity_scaling_witness:
  "sensitivity_analysis irr_nan (init 50) (projr (calculate_portfolio_returns (init 50))) =
     Inr (projr (sensitivity_analysis irr_nan (init 50) (projr (calculate_portfolio_returns (init 50)))))
   \<and> (\<exists>lp. calculate_lp_returns irr_nan (init 50) (projr (calculate_portfolio_returns (init 50))) = Inr lp
         \<and> Gross_Returns (projr (sensitivity_analysis irr_nan (init 50)
               (projr (calculate_portfolio_returns (init 50)))) ! 1) = gross_returns lp
         \<and> Gross_Returns (projr (sensitivity_analysis irr_nan (init 50)
               (projr (calculate_portfolio_returns (init 50)))) ! 0) =
             (7 / 10) * Gross_Returns (projr (sensitivity_analysis irr_nan (init 50)
               (projr (calculate_portfolio_returns (init 50)))) ! 1)
         \<and> Gross_Returns (projr (sensitivity_analysis irr_nan (init 50)
               (projr (calculate_portfolio_returns (init 50)))) ! 2) =
             (13 / 10) * Gross_Returns (projr (sensitivity_analysis irr_nan (init 50)
               (projr (calculate_portfolio_returns (init 50)))) ! 1)
         \<and> Gross_MOIC (projr (sensitivity_analysis irr_nan (init 50)
               (projr (calculate_portfolio_returns (init 50)))) ! 1) = gross_moic lp)"
proof -
  have g: "total_portfolio_gross (projr (calculate_portfolio_returns (init 50))) = Inr (2541 / 10)"
    by (simp add: default_portfolio total_portfolio_gross_def)
  have c: "calculate_cash_flows (init 50) = Inr (projr (calculate_cash_flows (init 50)))"
    by (simp add: default_params_cash_flows init_sel)
  from sensitivity_returns[OF g c, of irr_nan]
  have r: "sensitivity_analysis irr_nan (init 50) (projr (calculate_portfolio_returns (init 50))) =
     Inr (projr (sensitivity_analysis irr_nan (init 50) (projr (calculate_portfolio_returns (init 50)))))"
    by auto
  from sensitivity_scaling[OF r] r show ?thesis by blast
qed

lemma default_base_row:
  "\<exists>lp. projr (sensitivity_analysis npf_irr (init 50) (projr (calculate_portfolio_returns (init 50)))) ! 1
           = scenario_row (init 50) lp (''Base Case'', 1)
        \<and> gross_returns lp = 2541 / 10
        \<and> sensitivity_analysis npf_irr (init 50) (projr (calculate_portfolio_returns (init 50))) =
            Inr (projr (sensitivity_analysis npf_irr (init 50) (projr (calculate_portfolio_returns (init 50)))))"
proof -
  have g: "total_portfolio_gross (projr (calculate_portfolio_returns (init 50))) = Inr (2541 / 10)"
    by (simp add: default_portfolio total_portfolio_gross_def)
  have c: "calculate_cash_flows (init 50) = Inr (projr (calculate_cash_flows (init 50)))"
    by (simp add: default_params_cash_flows init_sel)
  from sensitivity_returns[OF g c, of npf_irr] show ?thesis by auto
qed

lemma default_base_row_moic:
  "Net_MOIC (projr (sensitivity_analysis npf_irr (init 50)
      (projr (calculate_portfolio_returns (init 50)))) ! 1) = Some (2666 / 625)"
  "Net_IRR_pct (projr (sensitivity_analysis npf_irr (init 50)
      (projr (calculate_portfolio_returns (init 50)))) ! 1) =
     Some (((2666 / 625) powr (1 / 10) - 1) * 100)"
proof -
  from default_base_row[of npf_irr] obtain lp where
    row: "projr (sensitivity_analysis npf_irr (init 50) (projr (calculate_portfolio_returns (init 50)))) ! 1
           = scenario_row (init 50) lp (''Base Case'', 1)"
    and g: "gross_returns lp = 2541 / 10" by blast
  show m: "Net_MOIC (projr (sensitivity_analysis npf_irr (init 50)
      (projr (calculate_portfolio_returns (init 50)))) ! 1) = Some (2666 / 625)"
    unfolding row by (simp add: scenario_row_sel g init_sel np_true_divide_def)
  show "Net_IRR_pct (projr (sensitivity_analysis npf_irr (init 50)
      (projr (calculate_portfolio_returns (init 50)))) ! 1) =
     Some (((2666 / 625) powr (1 / 10) - 1) * 100)"
    using m unfolding row by (simp add: scenario_row_sel(5) np_power_def)
qed

section \<open>Sensitivity scenarios: the estimated IRR\<close>

text \<open>
  C7, as stated, fails: the column holds a percentage. On the table of the default
  configuration the base-case row has net MOIC 4.2656 and reports
  \<open>(4.2656 powr (1/10) - 1) \<times> 100\<close>, not \<open>4.2656 powr (1/fund_life) - 1\<close>.
\<close>

theorem sensitivity_irr_not_a_fraction:
  "Net_MOIC (projr (sensitivity_analysis irr_nan (init 50)
      (projr (calculate_portfolio_returns (init 50)))) ! 1) = Some (2666 / 625)
   \<and> Net_IRR_pct (projr (sensitivity_analysis irr_nan (init 50)
      (projr (calculate_portfolio_returns (init 50)))) ! 1) \<noteq>
     Some ((2666 / 625) powr (1 / real_of_int (fund_life (init 50))) - 1)"
proof -
  have "(1::real) < (2666 / 625) powr (1 / 10)"
    by (rule gr_one_powr) simp_all
  then have ne: "((2666 / 625) powr (1 / 10) - 1) * 100 \<noteq> ((2666 / 625::real) powr (1 / 10) - 1)"
    by simp
  have mo: "Net_MOIC (projr (sensitivity_analysis irr_nan (init 50)
      (projr (calculate_portfolio_returns (init 50)))) ! 1) = Some (2666 / 625)"
    by (rule default_base_row_moic(1))
  have irr: "Net_IRR_pct (projr (sensitivity_analysis irr_nan (init 50)
      (projr (calculate_portfolio_returns (init 50)))) ! 1) =
     Some (((2666 / 625) powr (1 / 10) - 1) * 100)"
    by (rule default_base_row_moic(2))
  have fl: "real_of_int (fund_life (init 50)) = 10" by (simp add: init_sel)
  show ?thesis
    unfolding irr fl using mo ne by simp
qed

text \<open>
  C7, amended. Each row of the table returned by \<open>sensitivity_analysis\<close> whose net MOIC
  is a non-negative number reports its estimated net IRR in percent,
  \<open>(net_moic powr (1/fund_life) - 1) \<times> 100\<close>.
\<close>

theorem sensitivity_irr_percent:
  assumes "sensitivity_analysis npf_irr m tbl = Inr st"
    and "row \<in> set st"
    and "Net_MOIC row = Some mo"
    and "0 \<le> mo"
  shows "Net_IRR_pct row = Some ((mo powr (1 / real_of_int (fund_life m)) - 1) * 100)"
proof -
  from assms(1) obtain lp where lp: "calculate_lp_returns npf_irr m tbl = Inr lp"
    and st: "st = [scenario_row m lp (''Downside (-30%)'', 7 / 10),
           scenario_row m lp (''Base Case'', 1),
           scenario_row m lp (''Upside (+30%)'', 13 / 10)]"
    by (rule sensitivity_Inr)
  have fl: "fund_life m = 10" using lp by (rule lp_returns_fund_life)
  from assms(2) st obtain name k where row: "row = scenario_row m lp (name, k)"
    by auto
  have "Net_IRR_pct row = map_option (\<lambda>x. (x - 1) * 100) (np_power (Net_MOIC row) (1 / 10))"
    unfolding row by (rule scenario_row_sel)
  with assms(3,4) show ?thesis by (simp add: np_power_def fl)
qed

theorem sensitivity_irr_percent_witness:
  "sensitivity_analysis irr_nan (init 50) (projr (calculate_portfolio_returns (init 50))) =
     Inr (projr (sensitivity_analysis irr_nan (init 50) (projr (calculate_portfolio_returns (init 50)))))
   \<and> projr (sensitivity_analysis irr_nan (init 50) (projr (calculate_portfolio_returns (init 50)))) ! 1
       \<in> set (projr (sensitivity_analysis irr_nan (init 50) (projr (calculate_portfolio_returns (init 50)))))
   \<and> Net_MOIC (projr (sensitivity_analysis irr_nan (init 50)
        (projr (calculate_portfolio_returns (init 50)))) ! 1) = Some (2666 / 625)
   \<and> (0::real) \<le> 2666 / 625
   \<and> Net_IRR_pct (projr (sensitivity_analysis irr_nan (init 50)
        (projr (calculate_portfolio_returns (init 50)))) ! 1) =
       Some (((2666 / 625) powr (1 / real_of_int (fund_life (init 50))) - 1) * 100)"
proof -
  from default_base_row[of irr_nan]
  have r: "sensitivity_analysis irr_nan (init 50) (projr (calculate_portfolio_returns (init 50))) =
     Inr (projr (sensitivity_analysis irr_nan (init 50) (projr (calculate_portfolio_returns (init 50)))))"
    by blast
  from sensitivity_Inr[OF r] have "length (projr (sensitivity_analysis irr_nan (init 50)
      (projr (calculate_portfolio_returns (init 50))))) = 3"
    by (metis length_Cons list.size(3) numeral_3_eq_3)
  then have mem: "projr (sensitivity_analysis irr_nan (init 50) (projr (calculate_portfolio_returns (init 50)))) ! 1
       \<in> set (projr (sensitivity_analysis irr_nan (init 50) (projr (calculate_portfolio_returns (init 50)))))"
    by simp
  have mo: "Net_MOIC (projr (sensitivity_analysis irr_nan (init 50)
        (projr (calculate_portfolio_returns (init 50)))) ! 1) = Some (2666 / 625)"
    by (rule default_base_row_moic)
  have nn: "(0::real) \<le> 2666 / 625" by simp
  from sensitivity_irr_percent[OF r mem mo nn] r mem mo nn show ?thesis by simp
qed

lemma negative_fund_series:
  "calculate_cash_flows (init (- 50)) = Inr (projr (calculate_cash_flows (init (- 50))))"
  "Capital_Calls (projr (calculate_cash_flows (init (- 50)))) =
     [25 / 2, 25 / 2, 25 / 2, 25 / 2, 0, 0, 0, 0, 0, 0]"
  "Net_to_LPs (projr (calculate_cash_flows (init (- 50)))) =
     [- (202 / 25), 72 / 25, 156 / 25, 304 / 25, 96 / 5, 436 / 25, 676 / 25, 836 / 25,
      676 / 25, 302 / 5]"
  by (simp_all add: default_params_cash_flows init_sel derived_columns_sel equity_exits_def
      cumsum_def shift_fillna_def)

section \<open>LP returns: the IRR fallback\<close>

text \<open>
  C4 evaluated on the code. \<open>calculate_lp_returns\<close> takes the default rate 0.185 only
  in the handler of an exception of the solver, and tests no sign change itself. With a
  fund size of \<open>-50\<close> the capital calls are positive and every entry of the series
  handed to the solver is non-negative; a solver that reports the missing rate as \<open>nan\<close>
  without raising has its answer passed through: the function returns, and \<open>net_irr\<close>
  is not 0.185.
\<close>

theorem lp_irr_no_sign_change_not_defaulted:
  "butlast (Capital_Calls (projr (calculate_cash_flows (init (- 50))))
            @ [last (Net_to_LPs (projr (calculate_cash_flows (init (- 50)))))])
     @ [sum_list (Net_to_LPs (projr (calculate_cash_flows (init (- 50)))))]
   = [25 / 2, 25 / 2, 25 / 2, 25 / 2, 0, 0, 0, 0, 0, 0, 4944 / 25]
   \<and> list_all (\<lambda>x. 0 \<le> x) [25 / 2, 25 / 2, 25 / 2, 25 / 2, 0, 0, 0, 0, 0, 0, 4944 / 25 :: real]
   \<and> \<not> isl (calculate_lp_returns irr_nan (init (- 50))
              (projr (calculate_portfolio_returns (init (- 50)))))
   \<and> net_irr (projr (calculate_lp_returns irr_nan (init (- 50))
                 (projr (calculate_portfolio_returns (init (- 50))))))
       \<noteq> Some (185 / 1000)"
proof -
  have "(- 50::real) - (- 50) * (2 / 100) * 10 - 2 + 7 \<noteq> 0" by simp
  from init_portfolio[OF this]
  have g: "total_portfolio_gross (projr (calculate_portfolio_returns (init (- 50)))) = Inr (2541 / 10)"
    by auto
  from lp_returns_returns[OF g negative_fund_series(1), of irr_nan]
  obtain lp where lp: "calculate_lp_returns irr_nan (init (- 50))
      (projr (calculate_portfolio_returns (init (- 50)))) = Inr lp"
    and irr: "net_irr lp = (case irr_nan (Capital_Calls (projr (calculate_cash_flows (init (- 50))))
          @ [sum_list (Net_to_LPs (projr (calculate_cash_flows (init (- 50)))))]) of
        Inl e \<Rightarrow> Some (185 / 1000) | Inr r \<Rightarrow> r)"
    by blast
  have "net_irr lp = None" unfolding irr by (simp add: irr_nan_def)
  then show ?thesis
    by (simp add: lp negative_fund_series(2,3))
qed

section \<open>Carry due in the cash-flow schedule\<close>

text \<open>
  C2 evaluated on the code. The configuration is the default one with
  \<open>carried_interest_rate\<close> set to 0, as the request handler builds it. The carry due of
  the schedule is computed with the literal rate 0.20: it is positive from year 5 on, and
  the net-to-LPs column differs from the total distribution in the years 5 to 10.
\<close>

theorem carry_due_ignores_rate:
  "carried_interest_rate
     (configure \<lparr>req_fund_size = None, req_management_fee_rate = None,
                 req_carried_interest_rate = Some 0, req_fund_life = None,
                 req_investment_period = None, req_investment_params = []\<rparr>) = 0
   \<and> Carry_Due (projr (calculate_cash_flows
       (configure \<lparr>req_fund_size = None, req_management_fee_rate = None,
                   req_carried_interest_rate = Some 0, req_fund_life = None,
                   req_investment_period = None, req_investment_params = []\<rparr>))) =
       [0, 0, 0, 0, 3 / 5, 124 / 25, 293 / 25, 502 / 25, 671 / 25, 2097 / 50]
   \<and> Total_Distribution (projr (calculate_cash_flows
       (configure \<lparr>req_fund_size = None, req_management_fee_rate = None,
                   req_carried_interest_rate = Some 0, req_fund_life = None,
                   req_investment_period = None, req_investment_params = []\<rparr>))) =
       [12 / 5, 18 / 5, 39 / 5, 76 / 5, 24, 109 / 5, 169 / 5, 209 / 5, 169 / 5, 151 / 2]
   \<and> Net_to_LPs (projr (calculate_cash_flows
       (configure \<lparr>req_fund_size = None, req_management_fee_rate = None,
                   req_carried_interest_rate = Some 0, req_fund_life = None,
                   req_investment_period = None, req_investment_params = []\<rparr>))) =
       [12 / 5, 18 / 5, 39 / 5, 76 / 5, 117 / 5, 436 / 25, 676 / 25, 836 / 25, 676 / 25, 302 / 5]"
  by (simp add: default_params_cash_flows configure_sel derived_columns_sel equity_exits_def
      cumsum_def shift_fillna_def)

lemma lp_returns_cash_flow_error:
  assumes "isl (calculate_cash_flows m)"
  shows "isl (calculate_lp_returns npf_irr m tbl)"
proof (cases "calculate_lp_returns npf_irr m tbl")
  case (Inl e) then show ?thesis by simp
next
  case (Inr lp)
  then obtain cf where "calculate_cash_flows m = Inr cf" by (rule lp_returns_Inr)
  with assms show ?thesis by simp
qed

lemma sensitivity_cash_flow_error:
  assumes "isl (calculate_cash_flows m)"
  shows "isl (sensitivity_analysis npf_irr m tbl)"
proof (cases "sensitivity_analysis npf_irr m tbl")
  case (Inl e) then show ?thesis by simp
next
  case (Inr st)
  then obtain lp where "calculate_lp_returns npf_irr m tbl = Inr lp" by (rule sensitivity_Inr)
  with lp_returns_cash_flow_error[OF assms, of npf_irr tbl] show ?thesis by simp
qed

section \<open>Configurations that are not validated\<close>

text \<open>
  C9, as stated, fails: no part of the system checks \<open>fund_size\<close> or \<open>fund_life\<close>. A
  request with the fund size \<open>-50\<close> is not rejected: the constructor builds the model and
  the calculation stage of the request handler runs to its end.
\<close>

theorem negative_fund_size_not_rejected:
  "(- 50 :: real) \<le> 0
   \<and> fund_size (configure \<lparr>req_fund_size = Some (- 50), req_management_fee_rate = None,
                 req_carried_interest_rate = None, req_fund_life = None,
                 req_investment_period = None, req_investment_params = []\<rparr>) = - 50
   \<and> \<not> isl (run_model irr_nan
              \<lparr>req_fund_size = Some (- 50), req_management_fee_rate = None,
               req_carried_interest_rate = None, req_fund_life = None,
               req_investment_period = None, req_investment_params = []\<rparr>)"
proof -
  have "(- 50::real) - (- 50) * (2 / 100) * 10 - 2 + 7 \<noteq> 0" by simp
  from init_portfolio[OF this] obtain tbl where
    t: "calculate_portfolio_returns (init (- 50)) = Inr tbl" by blast
  have "\<exists>cf. calculate_cash_flows (init (- 50)) = Inr cf"
    by (simp add: default_params_cash_flows init_sel)
  then obtain cf where c: "calculate_cash_flows (init (- 50)) = Inr cf" by blast
  let ?data = "\<lparr>req_fund_size = Some (- 50), req_management_fee_rate = None,
               req_carried_interest_rate = None, req_fund_life = None,
               req_investment_period = None, req_investment_params = []\<rparr>"
  have cfg: "configure ?data = init (- 50)" by (rule configure_plain)
  have t': "calculate_portfolio_returns (configure ?data) = Inr tbl"
    unfolding cfg by (rule t)
  have c': "calculate_cash_flows (configure ?data) = Inr cf"
    unfolding cfg by (rule c)
  have "\<exists>res. run_model irr_nan ?data = Inr res"
    using t' c' by (rule run_model_returns)
  then show ?thesis by (auto simp: configure_sel)
qed

text \<open>
  C9, amended. A configuration with \<open>fund_life < 4\<close> is accepted by the constructor and
  by the request handler's overrides, and its calculation then ends in an error:
  \<open>calculate_cash_flows\<close> raises (the ten equity exits do not fit a frame that has not
  ten rows), \<open>calculate_lp_returns\<close> and \<open>sensitivity_analysis\<close> propagate that, and the
  request handler answers with an error response. A non-positive \<open>fund_size\<close> is not
  rejected.
\<close>

theorem fund_life_below_four_fails:
  assumes "fund_life m < 4"
  shows "isl (calculate_cash_flows m)
       \<and> isl (calculate_lp_returns npf_irr m tbl)
       \<and> isl (sensitivity_analysis npf_irr m tbl)
       \<and> (m = configure data \<longrightarrow> isl (run_model npf_irr data))"
proof -
  from assms have "fund_life m \<noteq> 10" by simp
  then have e: "isl (calculate_cash_flows m)" by (rule cash_flows_fund_life_error)
  from e lp_returns_cash_flow_error[OF e] sensitivity_cash_flow_error[OF e]
    run_model_cash_flow_error[of data npf_irr]
  show ?thesis by auto
qed

theorem fund_life_below_four_fails_witness:
  "fund_life (configure \<lparr>req_fund_size = None, req_management_fee_rate = None,
                 req_carried_interest_rate = None, req_fund_life = Some 3,
                 req_investment_period = None, req_investment_params = []\<rparr>) < 4
   \<and> calculate_cash_flows (configure \<lparr>req_fund_size = None, req_management_fee_rate = None,
                 req_carried_interest_rate = None, req_fund_life = Some 3,
                 req_investment_period = None, req_investment_params = []\<rparr>) = Inl ValueError
   \<and> isl (calculate_lp_returns irr_nan
            (configure \<lparr>req_fund_size = None, req_management_fee_rate = None,
                 req_carried_interest_rate = None, req_fund_life = Some 3,
                 req_investment_period = None, req_investment_params = []\<rparr>)
            (projr (calculate_portfolio_returns (init 50))))
   \<and> isl (sensitivity_analysis irr_nan
            (configure \<lparr>req_fund_size = None, req_management_fee_rate = None,
                 req_carried_interest_rate = None, req_fund_life = Some 3,
                 req_investment_period = None, req_investment_params = []\<rparr>)
            (projr (calculate_portfolio_returns (init 50))))
   \<and> isl (run_model irr_nan \<lparr>req_fund_size = None, req_management_fee_rate = None,
                 req_carried_interest_rate = None, req_fund_life = Some 3,
                 req_investment_period = None, req_investment_params = []\<rparr>)"
proof -
  let ?data = "\<lparr>req_fund_size = None, req_management_fee_rate = None,
                 req_carried_interest_rate = None, req_fund_life = Some 3,
                 req_investment_period = None, req_investment_params = []\<rparr>"
  have h: "fund_life (configure ?data) < 4" by (simp add: configure_sel)
  have v: "calculate_cash_flows (configure ?data) = Inl ValueError"
    by (simp add: calculate_cash_flows_def calculate_revenue_share_returns_def configure_sel
        default_investment_params_sel py_div_def Let_def length_revenue_share_column
        equity_exits_def)
  from fund_life_below_four_fails[OF h, of irr_nan "projr (calculate_portfolio_returns (init 50))" ?data]
    h v show ?thesis by simp
qed

end
